theory Spec2Isabelle
  imports Main
begin

section \<open>JavaScript values\<close>

text \<open>
  The client receives response bodies typed \<open>unknown\<close> and inspects them at run time, so
  the model needs the values themselves. \<open>jsval\<close> is the universe of parsed JSON bodies
  plus \<open>undefined\<close>: primitives, arrays and plain objects. An object is the list of its own
  properties in insertion order; a property is read with \<open>map_of\<close> (each key is bound
  once in a real object). This package does no arithmetic: all it can observe of a number
  is its type, whether it is falsy (a zero or \<open>NaN\<close>) and the string the runtime prints
  for it. A number is therefore represented by that string, the result of the
  runtime's own number-to-string conversion (\<open>42\<close>, \<open>-1.5\<close>, \<open>1e+21\<close>, \<open>NaN\<close>,
  \<open>Infinity\<close>; both zeros print as \<open>0\<close>), which covers every number, integral or not.
\<close>

datatype jsval =
    JUndefined
  | JNull
  | JBool bool
  | JNum string
  | JStr string
  | JArr "jsval list"
  | JObj "(string \<times> jsval) list"

text \<open>What can be thrown: an \<open>Error\<close> with its message, a \<open>TypeError\<close> raised by the
  runtime, or any other value (a transport may reject with whatever it likes).\<close>

datatype js_exn =
    Error string
  | TypeError string
  | Thrown jsval

text \<open>The \<open>typeof\<close> operator.\<close>

fun js_typeof :: "jsval \<Rightarrow> string" where
  "js_typeof JUndefined = ''undefined''"
| "js_typeof JNull = ''object''"
| "js_typeof (JBool b) = ''boolean''"
| "js_typeof (JNum n) = ''number''"
| "js_typeof (JStr s) = ''string''"
| "js_typeof (JArr xs) = ''object''"
| "js_typeof (JObj ps) = ''object''"

text \<open>\<open>v != null\<close>: the loose comparison, false for both \<open>null\<close> and \<open>undefined\<close>.\<close>

fun js_not_nullish :: "jsval \<Rightarrow> bool" where
  "js_not_nullish JUndefined = False"
| "js_not_nullish JNull = False"
| "js_not_nullish v = True"

text \<open>
  Property access. The program reads four property names only (\<open>success\<close>, \<open>data\<close>,
  \<open>error\<close>, \<open>message\<close>); none of them is a built-in property of an array, of a
  primitive's wrapper or of \<open>Object.prototype\<close>, so such a property exists exactly when a
  plain object has it as an own key, and reading it anywhere else gives \<open>undefined\<close>.
  \<open>js_in k v\<close> is \<open>k in v\<close> and \<open>js_get v k\<close> is \<open>v.k\<close>, both for a \<open>v\<close> that is not
  nullish (the program guards every access).
\<close>

fun js_in :: "string \<Rightarrow> jsval \<Rightarrow> bool" where
  "js_in k (JObj ps) = (k \<in> fst ` set ps)"
| "js_in k v = False"

fun js_get :: "jsval \<Rightarrow> string \<Rightarrow> jsval" where
  "js_get (JObj ps) k = (case map_of ps k of Some v \<Rightarrow> v | None \<Rightarrow> JUndefined)"
| "js_get v k = JUndefined"

text \<open>Optional chaining \<open>v?.k\<close>: \<open>undefined\<close> on a nullish \<open>v\<close>, the property otherwise.\<close>

definition js_opt_get :: "jsval \<Rightarrow> string \<Rightarrow> jsval" where
  "js_opt_get v k = (if js_not_nullish v then js_get v k else JUndefined)"

text \<open>Truthiness, and the operator \<open>||\<close> that returns its first truthy operand.\<close>

fun js_truthy :: "jsval \<Rightarrow> bool" where
  "js_truthy JUndefined = False"
| "js_truthy JNull = False"
| "js_truthy (JBool b) = b"
| "js_truthy (JNum n) = (n \<noteq> ''0'' \<and> n \<noteq> ''NaN'')"
| "js_truthy (JStr s) = (s \<noteq> [])"
| "js_truthy (JArr xs) = True"
| "js_truthy (JObj ps) = True"

definition js_or :: "jsval \<Rightarrow> jsval \<Rightarrow> jsval" where
  "js_or a b = (if js_truthy a then a else b)"

text \<open>
  String conversion, as a template literal applies it to an interpolated value. A string
  is itself; a number is the string that represents it; an array joins its elements with
  commas (nullish elements print as nothing);
  a plain object prints as \<open>[object Object]\<close>, unless it has an own property \<open>toString\<close>,
  which in this universe is never callable: then no conversion exists and the runtime
  throws a \<open>TypeError\<close>.
\<close>

fun join_comma :: "string list \<Rightarrow> string" where
  "join_comma [] = []"
| "join_comma [s] = s"
| "join_comma (s # ss) = s @ '','' @ join_comma ss"

fun collect :: "(js_exn + 'a) list \<Rightarrow> js_exn + 'a list" where
  "collect [] = Inr []"
| "collect (Inl e # rs) = Inl e"
| "collect (Inr a # rs) = (case collect rs of Inl e \<Rightarrow> Inl e | Inr as \<Rightarrow> Inr (a # as))"

fun js_to_string :: "jsval \<Rightarrow> js_exn + string" where
  "js_to_string JUndefined = Inr ''undefined''"
| "js_to_string JNull = Inr ''null''"
| "js_to_string (JBool b) = Inr (if b then ''true'' else ''false'')"
| "js_to_string (JNum n) = Inr n"
| "js_to_string (JStr s) = Inr s"
| "js_to_string (JArr xs) =
     (case collect (map (\<lambda>x. if js_not_nullish x then js_to_string x else Inr []) xs) of
        Inl e \<Rightarrow> Inl e
      | Inr ss \<Rightarrow> Inr (join_comma ss))"
| "js_to_string (JObj ps) =
     (if ''toString'' \<in> fst ` set ps
      then Inl (TypeError ''Cannot convert object to primitive value'')
      else Inr ''[object Object]'')"

section \<open>Header and URL helpers (utils/starter-helpers.ts)\<close>

text \<open>A headers object (\<open>Record<string, string>\<close>) is the list of its entries, in the
  order the object literal writes them.\<close>

type_synonym headers = "(string \<times> string) list"

definition createAuthHeaders :: "string \<Rightarrow> headers" where
  "createAuthHeaders token =
     [(''Content-Type'', ''application/json''),
      (''Accept'', ''application/json''),
      (''Authorization'', ''Bearer '' @ token)]"

definition createHeaders :: headers where
  "createHeaders =
     [(''Content-Type'', ''application/json''),
      (''Accept'', ''application/json'')]"

text \<open>
  \<open>baseUrl.replace(/\/$/, '')\<close>: the pattern is a slash followed by the end of the input
  (no \<open>m\<close> or \<open>g\<close> flag), searched from the left; the match, when there is one, is
  replaced by the empty string.
\<close>

fun replace_trailing_slash :: "string \<Rightarrow> string" where
  "replace_trailing_slash [] = []"
| "replace_trailing_slash [c] = (if c = CHR ''/'' then [] else [c])"
| "replace_trailing_slash (c # cs) = c # replace_trailing_slash cs"

definition buildUrl :: "string \<Rightarrow> string \<Rightarrow> string" where
  "buildUrl baseUrl path = (let cleanBase = replace_trailing_slash baseUrl in cleanBase @ path)"

section \<open>Cache keys (types.ts)\<close>

type_synonym query_key = "string list"

definition QUERY_KEYS_histories :: "string \<Rightarrow> query_key" where
  "QUERY_KEYS_histories userId = [''starter'', ''histories'', userId]"

definition QUERY_KEYS_historiesTotal :: query_key where
  "QUERY_KEYS_historiesTotal = [''starter'', ''histories'', ''total'']"

definition QUERY_KEYS_user :: "string \<Rightarrow> query_key" where
  "QUERY_KEYS_user userId = [''starter'', ''user'', userId]"

section \<open>Response validation (network/StarterClient.ts)\<close>

text \<open>A thrown \<open>Error\<close> is the left summand, the returned value the right one. The
  returned value is the argument itself: the cast to \<open>BaseResponse\<close> has no run-time
  effect.\<close>

definition validateResponse :: "jsval \<Rightarrow> string \<Rightarrow> js_exn + jsval" where
  "validateResponse dat operation =
     (if js_not_nullish dat
         \<and> js_typeof dat = ''object''
         \<and> js_in ''success'' dat
         \<and> js_typeof (js_get dat ''success'') = ''boolean''
      then Inr dat
      else Inl (Error (''Invalid API response for '' @ operation
                       @ '': response does not match expected BaseResponse shape'')))"

text \<open>
  The specification's wording of a valid envelope, to compare the validator with: the
  value is non-null, is a keyed structure and not a primitive, contains a key
  \<open>success\<close>, and that key's value is strictly boolean.
\<close>

fun is_primitive :: "jsval \<Rightarrow> bool" where
  "is_primitive (JArr xs) = False"
| "is_primitive (JObj ps) = False"
| "is_primitive v = True"

definition spec_valid_envelope :: "jsval \<Rightarrow> bool" where
  "spec_valid_envelope v =
     (v \<noteq> JNull \<and> \<not> is_primitive v \<and> js_in ''success'' v
      \<and> (js_get v ''success'' = JBool True \<or> js_get v ''success'' = JBool False))"

text \<open>A business failure is a well-formed envelope whose \<open>success\<close> is \<open>false\<close>.\<close>

definition is_business_failure :: "jsval \<Rightarrow> bool" where
  "is_business_failure v = (spec_valid_envelope v \<and> js_get v ''success'' = JBool False)"

section \<open>The transport and asynchronous calls\<close>

text \<open>
  An \<open>async\<close> function is a state transformer that settles with a thrown value or a
  result: the state is whatever the outside world holds (the server, the transport's
  own bookkeeping). \<open>await\<close> runs a promise and continues with its value; a rejection
  propagates, since no method of this package has a \<open>try\<close>.
\<close>

type_synonym ('a, 's) async = "'s \<Rightarrow> (js_exn + 'a) \<times> 's"

definition settle :: "js_exn + 'a \<Rightarrow> ('a, 's) async" where
  "settle r s = (r, s)"

definition await :: "('a, 's) async \<Rightarrow> ('a \<Rightarrow> ('b, 's) async) \<Rightarrow> ('b, 's) async" where
  "await p k s = (case p s of (Inl e, s') \<Rightarrow> (Inl e, s') | (Inr a, s') \<Rightarrow> k a s')"

text \<open>The injected transport (\<open>NetworkClient\<close>): four methods, each resolving with an
  object that carries the body under \<open>data\<close>. Request bodies are passed as values.\<close>

record RequestOptions =
  headers :: headers

record NetworkResponse =
  data :: jsval

record 's NetworkClient =
  get :: "string \<Rightarrow> RequestOptions \<Rightarrow> (NetworkResponse, 's) async"
  post :: "string \<Rightarrow> jsval \<Rightarrow> RequestOptions \<Rightarrow> (NetworkResponse, 's) async"
  put :: "string \<Rightarrow> jsval \<Rightarrow> RequestOptions \<Rightarrow> (NetworkResponse, 's) async"
  delete :: "string \<Rightarrow> RequestOptions \<Rightarrow> (NetworkResponse, 's) async"

section \<open>The API client (network/StarterClient.ts)\<close>

record 's StarterClient =
  baseUrl :: string
  networkClient :: "'s NetworkClient"

text \<open>The constructor copies the two fields of its configuration.\<close>

definition new_StarterClient :: "string \<Rightarrow> 's NetworkClient \<Rightarrow> 's StarterClient" where
  "new_StarterClient b nc = \<lparr>baseUrl = b, networkClient = nc\<rparr>"

definition getUser :: "'s StarterClient \<Rightarrow> string \<Rightarrow> string \<Rightarrow> (jsval, 's) async" where
  "getUser this userId token =
     (let url = buildUrl (baseUrl this) (''/api/v1/users/'' @ userId) in
      await (get (networkClient this) url \<lparr>headers = createAuthHeaders token\<rparr>)
        (\<lambda>response. settle (validateResponse (data response) ''getUser'')))"

definition getHistories :: "'s StarterClient \<Rightarrow> string \<Rightarrow> string \<Rightarrow> (jsval, 's) async" where
  "getHistories this userId token =
     (let url = buildUrl (baseUrl this) (''/api/v1/users/'' @ userId @ ''/histories'') in
      await (get (networkClient this) url \<lparr>headers = createAuthHeaders token\<rparr>)
        (\<lambda>response. settle (validateResponse (data response) ''getHistories'')))"

definition createHistory ::
  "'s StarterClient \<Rightarrow> string \<Rightarrow> jsval \<Rightarrow> string \<Rightarrow> (jsval, 's) async" where
  "createHistory this userId dat token =
     (let url = buildUrl (baseUrl this) (''/api/v1/users/'' @ userId @ ''/histories'') in
      await (post (networkClient this) url dat \<lparr>headers = createAuthHeaders token\<rparr>)
        (\<lambda>response. settle (validateResponse (data response) ''createHistory'')))"

definition updateHistory ::
  "'s StarterClient \<Rightarrow> string \<Rightarrow> string \<Rightarrow> jsval \<Rightarrow> string \<Rightarrow> (jsval, 's) async" where
  "updateHistory this userId historyId dat token =
     (let url = buildUrl (baseUrl this)
                  (''/api/v1/users/'' @ userId @ ''/histories/'' @ historyId) in
      await (put (networkClient this) url dat \<lparr>headers = createAuthHeaders token\<rparr>)
        (\<lambda>response. settle (validateResponse (data response) ''updateHistory'')))"

definition deleteHistory ::
  "'s StarterClient \<Rightarrow> string \<Rightarrow> string \<Rightarrow> string \<Rightarrow> (jsval, 's) async" where
  "deleteHistory this userId historyId token =
     (let url = buildUrl (baseUrl this)
                  (''/api/v1/users/'' @ userId @ ''/histories/'' @ historyId) in
      await (delete (networkClient this) url \<lparr>headers = createAuthHeaders token\<rparr>)
        (\<lambda>response. settle (validateResponse (data response) ''deleteHistory'')))"

definition getHistoriesTotal :: "'s StarterClient \<Rightarrow> (jsval, 's) async" where
  "getHistoriesTotal this =
     (let url = buildUrl (baseUrl this) ''/api/v1/histories/total'' in
      await (get (networkClient this) url \<lparr>headers = createHeaders\<rparr>)
        (\<lambda>response. settle (validateResponse (data response) ''getHistoriesTotal'')))"

text \<open>The six operations under one name, to state a property of every method.\<close>

datatype client_op =
    GetUser string string
  | GetHistories string string
  | CreateHistory string jsval string
  | UpdateHistory string string jsval string
  | DeleteHistory string string string
  | GetHistoriesTotal

fun run_op :: "'s StarterClient \<Rightarrow> client_op \<Rightarrow> (jsval, 's) async" where
  "run_op c (GetUser u t) = getUser c u t"
| "run_op c (GetHistories u t) = getHistories c u t"
| "run_op c (CreateHistory u d t) = createHistory c u d t"
| "run_op c (UpdateHistory u h d t) = updateHistory c u h d t"
| "run_op c (DeleteHistory u h t) = deleteHistory c u h t"
| "run_op c GetHistoriesTotal = getHistoriesTotal c"

text \<open>The name each method hands to the validator.\<close>

fun operation_name :: "client_op \<Rightarrow> string" where
  "operation_name (GetUser u t) = ''getUser''"
| "operation_name (GetHistories u t) = ''getHistories''"
| "operation_name (CreateHistory u d t) = ''createHistory''"
| "operation_name (UpdateHistory u h d t) = ''updateHistory''"
| "operation_name (DeleteHistory u h t) = ''deleteHistory''"
| "operation_name GetHistoriesTotal = ''getHistoriesTotal''"

section \<open>Observing the transport\<close>

text \<open>
  One call of the transport, as a value, and a transport that keeps the list of the
  calls it received in front of the state of the transport it wraps (what the mocks of
  the test suite do with \<open>vi.fn()\<close>).
\<close>

datatype http_call =
    GET string RequestOptions
  | POST string jsval RequestOptions
  | PUT string jsval RequestOptions
  | DELETE string RequestOptions

fun perform :: "'s NetworkClient \<Rightarrow> http_call \<Rightarrow> (NetworkResponse, 's) async" where
  "perform nc (GET url opts) = get nc url opts"
| "perform nc (POST url body opts) = post nc url body opts"
| "perform nc (PUT url body opts) = put nc url body opts"
| "perform nc (DELETE url opts) = delete nc url opts"

definition logged ::
  "'s NetworkClient \<Rightarrow> http_call \<Rightarrow> (NetworkResponse, http_call list \<times> 's) async" where
  "logged nc call = (\<lambda>(log, s). case perform nc call s of (r, s') \<Rightarrow> (r, (log @ [call], s')))"

definition recording :: "'s NetworkClient \<Rightarrow> (http_call list \<times> 's) NetworkClient" where
  "recording nc =
     \<lparr>get = (\<lambda>url opts. logged nc (GET url opts)),
      post = (\<lambda>url body opts. logged nc (POST url body opts)),
      put = (\<lambda>url body opts. logged nc (PUT url body opts)),
      delete = (\<lambda>url opts. logged nc (DELETE url opts))\<rparr>"

text \<open>\<open>createMockNetworkClient\<close> of the client's test suite: every method resolves with
  the same body and records the call.\<close>

definition createMockNetworkClient :: "jsval \<Rightarrow> (http_call list \<times> unit) NetworkClient" where
  "createMockNetworkClient responseData =
     (let mockResponse = \<lparr>data = responseData\<rparr> in
      recording
        \<lparr>get = (\<lambda>url opts. settle (Inr mockResponse)),
         post = (\<lambda>url body opts. settle (Inr mockResponse)),
         put = (\<lambda>url body opts. settle (Inr mockResponse)),
         delete = (\<lambda>url opts. settle (Inr mockResponse))\<rparr>)"

text \<open>
  The operation table of the specification, row by row: method, path under the base URL
  with the identifiers interpolated, header set (authenticated or public) and body.
\<close>

fun operation_table :: "string \<Rightarrow> client_op \<Rightarrow> http_call" where
  "operation_table b (GetUser u t) =
     GET (buildUrl b (''/api/v1/users/'' @ u)) \<lparr>headers = createAuthHeaders t\<rparr>"
| "operation_table b (GetHistories u t) =
     GET (buildUrl b (''/api/v1/users/'' @ u @ ''/histories'')) \<lparr>headers = createAuthHeaders t\<rparr>"
| "operation_table b (CreateHistory u d t) =
     POST (buildUrl b (''/api/v1/users/'' @ u @ ''/histories'')) d
       \<lparr>headers = createAuthHeaders t\<rparr>"
| "operation_table b (UpdateHistory u h d t) =
     PUT (buildUrl b (''/api/v1/users/'' @ u @ ''/histories/'' @ h)) d
       \<lparr>headers = createAuthHeaders t\<rparr>"
| "operation_table b (DeleteHistory u h t) =
     DELETE (buildUrl b (''/api/v1/users/'' @ u @ ''/histories/'' @ h))
       \<lparr>headers = createAuthHeaders t\<rparr>"
| "operation_table b GetHistoriesTotal =
     GET (buildUrl b ''/api/v1/histories/total'') \<lparr>headers = createHeaders\<rparr>"

section \<open>The error formatter (utils/starter-helpers.ts)\<close>

text \<open>
  \<open>handleApiError\<close> returns an \<open>Error\<close> (the right summand); the only thing that can
  throw in its body is the string conversion of the interpolated message.
\<close>

definition handleApiError :: "jsval \<Rightarrow> string \<Rightarrow> js_exn + js_exn" where
  "handleApiError response operation =
     (let resp = response;
          errorMessage =
            js_or (js_opt_get (js_opt_get resp ''data'') ''error'')
              (js_or (js_opt_get (js_opt_get resp ''data'') ''message'')
                 (JStr ''Unknown error''))
      in case js_to_string errorMessage of
           Inl e \<Rightarrow> Inl e
         | Inr s \<Rightarrow> Inr (Error (''Failed to '' @ operation @ '': '' @ s)))"




section \<open>The history-list hook (hooks/useHistories.ts)\<close>

text \<open>
  What the writes of the hook touch: the world behind the transport, and the query
  cache, of which the model keeps the keys handed to \<open>invalidateQueries\<close>, in order.
\<close>

record 's app_state =
  transport_state :: 's
  invalidated :: "query_key list"

definition invalidateQueries :: "query_key \<Rightarrow> 's app_state \<Rightarrow> 's app_state" where
  "invalidateQueries queryKey w = w\<lparr>invalidated := invalidated w @ [queryKey]\<rparr>"

text \<open>A call of the client inside the hook acts on the transport's part of the state.\<close>

definition on_transport :: "('a, 's) async \<Rightarrow> ('a, 's app_state) async" where
  "on_transport p w = (case p (transport_state w) of (r, s') \<Rightarrow> (r, w\<lparr>transport_state := s'\<rparr>))"

text \<open>
  \<open>mutateAsync\<close> of the query library, as far as the hook relies on it: it runs the
  mutation function, calls \<open>onSuccess\<close> with the result when the function resolves, and
  settles as the function did; when the function rejects, \<open>onSuccess\<close> is not called.
\<close>

definition mutateAsync ::
  "('v \<Rightarrow> ('r, 'w) async) \<Rightarrow> ('r \<Rightarrow> 'w \<Rightarrow> 'w) \<Rightarrow> 'v \<Rightarrow> ('r, 'w) async" where
  "mutateAsync mutationFn onSuccess variables w =
     (case mutationFn variables w of
        (Inl e, w') \<Rightarrow> (Inl e, w')
      | (Inr r, w') \<Rightarrow> (Inr r, onSuccess r w'))"

text \<open>
  The hook takes \<open>userId\<close> and \<open>token\<close> of type \<open>string | null\<close>. The non-null assertion
  \<open>userId!\<close> is erased by the compiler: a \<open>null\<close> reaches the client, which uses both
  values inside template literals only, where \<open>null\<close> prints as the four letters.
\<close>

fun non_null_assertion :: "string option \<Rightarrow> string" where
  "non_null_assertion None = ''null''"
| "non_null_assertion (Some s) = s"

text \<open>\<open>if (userId)\<close>: a \<open>null\<close> and the empty string are falsy.\<close>

definition invalidate :: "string option \<Rightarrow> 's app_state \<Rightarrow> 's app_state" where
  "invalidate userId w =
     (let w1 = (case userId of
                  None \<Rightarrow> w
                | Some u \<Rightarrow> if u \<noteq> [] then invalidateQueries (QUERY_KEYS_histories u) w else w)
      in invalidateQueries QUERY_KEYS_historiesTotal w1)"

definition onSuccess_invalidate :: "string option \<Rightarrow> jsval \<Rightarrow> 's app_state \<Rightarrow> 's app_state" where
  "onSuccess_invalidate userId response w =
     (if js_truthy (js_get response ''success'') then invalidate userId w else w)"

definition useHistories_createHistory ::
  "'s NetworkClient \<Rightarrow> string \<Rightarrow> string option \<Rightarrow> string option \<Rightarrow> jsval
    \<Rightarrow> (jsval, 's app_state) async" where
  "useHistories_createHistory nc b userId token dat =
     (let client = new_StarterClient b nc in
      mutateAsync
        (\<lambda>d. on_transport
                (createHistory client (non_null_assertion userId) d (non_null_assertion token)))
        (onSuccess_invalidate userId)
        dat)"

definition useHistories_updateHistory ::
  "'s NetworkClient \<Rightarrow> string \<Rightarrow> string option \<Rightarrow> string option \<Rightarrow> string \<Rightarrow> jsval
    \<Rightarrow> (jsval, 's app_state) async" where
  "useHistories_updateHistory nc b userId token historyId dat =
     (let client = new_StarterClient b nc in
      mutateAsync
        (\<lambda>(h, d). on_transport
                (updateHistory client (non_null_assertion userId) h d (non_null_assertion token)))
        (onSuccess_invalidate userId)
        (historyId, dat))"

definition useHistories_deleteHistory ::
  "'s NetworkClient \<Rightarrow> string \<Rightarrow> string option \<Rightarrow> string option \<Rightarrow> string
    \<Rightarrow> (jsval, 's app_state) async" where
  "useHistories_deleteHistory nc b userId token historyId =
     (let client = new_StarterClient b nc in
      mutateAsync
        (\<lambda>h. on_transport
                (deleteHistory client (non_null_assertion userId) h (non_null_assertion token)))
        (onSuccess_invalidate userId)
        historyId)"

text \<open>The three writes under one name, and what it means that a write succeeded: it
  settled with an envelope whose \<open>success\<close> is \<open>true\<close>.\<close>

datatype write_op =
    Create jsval
  | Update string jsval
  | Delete string

fun useHistories_write ::
  "'s NetworkClient \<Rightarrow> string \<Rightarrow> string option \<Rightarrow> string option \<Rightarrow> write_op
    \<Rightarrow> (jsval, 's app_state) async" where
  "useHistories_write nc b userId token (Create d) = useHistories_createHistory nc b userId token d"
| "useHistories_write nc b userId token (Update h d) =
     useHistories_updateHistory nc b userId token h d"
| "useHistories_write nc b userId token (Delete h) = useHistories_deleteHistory nc b userId token h"

fun write_succeeded :: "js_exn + jsval \<Rightarrow> bool" where
  "write_succeeded (Inl e) = False"
| "write_succeeded (Inr envelope) = (js_get envelope ''success'' = JBool True)"

section \<open>Helper lemmas\<close>

lemma replace_trailing_slash_snoc:
  "replace_trailing_slash (b @ ''/'') = b"
  by (induction b rule: replace_trailing_slash.induct) auto

lemma replace_trailing_slash_other:
  "b = [] \<or> last b \<noteq> CHR ''/'' \<Longrightarrow> replace_trailing_slash b = b"
  by (induction b rule: replace_trailing_slash.induct) (auto split: if_splits)

lemma typeof_boolean:
  "js_typeof v = ''boolean'' \<longleftrightarrow> (v = JBool True \<or> v = JBool False)"
  by (cases v) auto

lemma typeof_object:
  "js_not_nullish v \<and> js_typeof v = ''object'' \<longleftrightarrow> v \<noteq> JNull \<and> \<not> is_primitive v"
  by (cases v) auto

lemma validateResponse_cases:
  "validateResponse v op =
     (if spec_valid_envelope v then Inr v
      else Inl (Error (''Invalid API response for '' @ op
                       @ '': response does not match expected BaseResponse shape'')))"
  using typeof_object [of v]
  by (auto simp add: validateResponse_def spec_valid_envelope_def typeof_boolean)

lemma validateResponse_Inr:
  "validateResponse v op = Inr x \<Longrightarrow> x = v \<and> spec_valid_envelope v"
  by (simp add: validateResponse_cases split: if_splits)

text \<open>Every method is one call of the transport followed by the validation of the body.\<close>

lemma run_op_perform:
  "run_op (new_StarterClient b nc) op s =
     (case perform nc (operation_table b op) s of
        (Inl e, s') \<Rightarrow> (Inl e, s')
      | (Inr r, s') \<Rightarrow> (validateResponse (data r) (operation_name op), s'))"
  by (cases op)
    (simp_all add: new_StarterClient_def getUser_def getHistories_def createHistory_def
      updateHistory_def deleteHistory_def getHistoriesTotal_def await_def settle_def
      split: prod.splits sum.splits)

lemma perform_recording: "perform (recording nc) call = logged nc call"
  by (cases call) (simp_all add: recording_def)

lemma run_op_Inr:
  "run_op (new_StarterClient b nc) op s = (Inr x, s') \<Longrightarrow> spec_valid_envelope x"
  by (auto simp add: run_op_perform split: prod.splits sum.splits dest: validateResponse_Inr)

lemma truthy_success:
  "spec_valid_envelope x \<Longrightarrow>
   js_truthy (js_get x ''success'') \<longleftrightarrow> js_get x ''success'' = JBool True"
  by (auto simp add: spec_valid_envelope_def)

lemma invalidated_invalidate:
  "invalidated (invalidate userId w) =
     invalidated w
     @ (case userId of None \<Rightarrow> [] | Some u \<Rightarrow> if u \<noteq> [] then [QUERY_KEYS_histories u] else [])
     @ [QUERY_KEYS_historiesTotal]"
  by (simp add: invalidate_def invalidateQueries_def split: option.splits)

text \<open>A mutation around any method of the client: the cache keys are handed over exactly
  when the method settles with a successful envelope.\<close>

lemma mutate_client_op:
  "invalidated (snd (mutateAsync (\<lambda>v. on_transport (run_op (new_StarterClient b nc) (f v)))
                       (onSuccess_invalidate userId) x w))
   = invalidated w @
      (if write_succeeded (fst (mutateAsync (\<lambda>v. on_transport (run_op (new_StarterClient b nc) (f v)))
                                  (onSuccess_invalidate userId) x w))
       then (case userId of None \<Rightarrow> []
             | Some u \<Rightarrow> if u \<noteq> [] then [QUERY_KEYS_histories u] else [])
            @ [QUERY_KEYS_historiesTotal]
       else [])"
proof (cases "run_op (new_StarterClient b nc) (f x) (transport_state w)")
  case (Pair r s')
  show ?thesis
  proof (cases r)
    case (Inl e)
    with Pair show ?thesis by (simp add: mutateAsync_def on_transport_def)
  next
    case (Inr env)
    with Pair have "spec_valid_envelope env" by (auto dest: run_op_Inr)
    then have "js_truthy (js_get env ''success'') \<longleftrightarrow> js_get env ''success'' = JBool True"
      by (rule truthy_success)
    with Pair Inr show ?thesis
      by (simp add: mutateAsync_def on_transport_def onSuccess_invalidate_def
          invalidated_invalidate)
  qed
qed

lemma handleApiError_select:
  "handleApiError r op =
     (case js_to_string
             (if js_truthy (js_opt_get (js_opt_get r ''data'') ''error'')
              then js_opt_get (js_opt_get r ''data'') ''error''
              else if js_truthy (js_opt_get (js_opt_get r ''data'') ''message'')
              then js_opt_get (js_opt_get r ''data'') ''message''
              else JStr ''Unknown error'') of
        Inl e \<Rightarrow> Inl e
      | Inr s \<Rightarrow> Inr (Error (''Failed to '' @ op @ '': '' @ s)))"
  by (simp add: handleApiError_def js_or_def Let_def)





section \<open>Properties of the helpers\<close>

text \<open>
  C7. For every base \<open>b\<close> and path \<open>p\<close>, \<open>buildUrl\<close> removes one trailing slash of the
  base, when it has one, and appends the path unchanged: a base written \<open>b/\<close> gives
  \<open>b\<close> followed by \<open>p\<close> (whatever \<open>b\<close> itself ends with, so a second slash stays), a
  base that does not end with a slash is kept whole, and nothing in \<open>p\<close> is encoded or
  normalised. Hence \<open>buildUrl("https://x/", "/y")\<close> equals \<open>buildUrl("https://x", "/y")\<close>.
\<close>

theorem buildUrl_strips_one_slash:
  "buildUrl (b @ ''/'') p = b @ p
   \<and> (b = [] \<or> last b \<noteq> CHR ''/'' \<longrightarrow> buildUrl b p = b @ p)
   \<and> buildUrl ''https://x/'' ''/y'' = buildUrl ''https://x'' ''/y''"
proof -
  have slash: "buildUrl (b @ ''/'') p = b @ p"
    by (simp add: buildUrl_def replace_trailing_slash_snoc)
  have other: "b = [] \<or> last b \<noteq> CHR ''/'' \<longrightarrow> buildUrl b p = b @ p"
    by (simp add: buildUrl_def replace_trailing_slash_other)
  have example: "buildUrl ''https://x/'' ''/y'' = buildUrl ''https://x'' ''/y''"
    by (simp add: buildUrl_def)
  from slash other example show ?thesis by blast
qed

theorem buildUrl_strips_one_slash_witness:
  "buildUrl ''http://localhost:8022//'' ''//a b'' = ''http://localhost:8022///a b''
   \<and> buildUrl ''http://localhost:8022'' ''/api/v1/histories/total''
       = ''http://localhost:8022/api/v1/histories/total''"
  using buildUrl_strips_one_slash [of "''http://localhost:8022/''" "''//a b''"]
    buildUrl_strips_one_slash [of "''http://localhost:8022''" "''/api/v1/histories/total''"]
  by simp

text \<open>
  C8. For every token \<open>t\<close>, \<open>createAuthHeaders t\<close> has exactly three entries, under three
  distinct names: \<open>Content-Type\<close> and \<open>Accept\<close>, both \<open>application/json\<close>, and
  \<open>Authorization\<close>, which is \<open>Bearer\<close>, a space and \<open>t\<close>. \<open>createHeaders\<close> has exactly
  two entries, \<open>Content-Type\<close> and \<open>Accept\<close>, and no \<open>Authorization\<close> entry.
\<close>

theorem header_builders_entries:
  "length (createAuthHeaders t) = 3
   \<and> distinct (map fst (createAuthHeaders t))
   \<and> dom (map_of (createAuthHeaders t)) = {''Content-Type'', ''Accept'', ''Authorization''}
   \<and> map_of (createAuthHeaders t) ''Content-Type'' = Some ''application/json''
   \<and> map_of (createAuthHeaders t) ''Accept'' = Some ''application/json''
   \<and> map_of (createAuthHeaders t) ''Authorization'' = Some (''Bearer '' @ t)
   \<and> length createHeaders = 2
   \<and> distinct (map fst createHeaders)
   \<and> dom (map_of createHeaders) = {''Content-Type'', ''Accept''}
   \<and> map_of createHeaders ''Content-Type'' = Some ''application/json''
   \<and> map_of createHeaders ''Accept'' = Some ''application/json''
   \<and> map_of createHeaders ''Authorization'' = None"
proof -
  have auth_dom:
    "dom (map_of (createAuthHeaders t)) = {''Content-Type'', ''Accept'', ''Authorization''}"
    unfolding createAuthHeaders_def dom_map_of_conv_image_fst by auto
  have pub_dom: "dom (map_of createHeaders) = {''Content-Type'', ''Accept''}"
    unfolding createHeaders_def dom_map_of_conv_image_fst by auto
  have auth: "length (createAuthHeaders t) = 3"
    "distinct (map fst (createAuthHeaders t))"
    "map_of (createAuthHeaders t) ''Content-Type'' = Some ''application/json''"
    "map_of (createAuthHeaders t) ''Accept'' = Some ''application/json''"
    "map_of (createAuthHeaders t) ''Authorization'' = Some (''Bearer '' @ t)"
    by (simp_all add: createAuthHeaders_def)
  have pub: "length createHeaders = 2"
    "distinct (map fst createHeaders)"
    "map_of createHeaders ''Content-Type'' = Some ''application/json''"
    "map_of createHeaders ''Accept'' = Some ''application/json''"
    "map_of createHeaders ''Authorization'' = None"
    by (simp_all add: createHeaders_def)
  from auth_dom pub_dom auth pub show ?thesis by simp
qed

section \<open>The response validator\<close>

text \<open>
  C1. For every value \<open>v\<close> and operation name, \<open>validateResponse\<close> returns \<open>v\<close> itself
  if and only if \<open>v\<close> is a valid envelope in the specification's sense (non-null, an
  object and not a primitive, with a key \<open>success\<close> whose value is a boolean), and it
  throws in every other case. In particular it throws for \<open>null\<close>, \<open>undefined\<close>, a
  string, an object without \<open>success\<close> and an object whose \<open>success\<close> is the string
  \<open>yes\<close>, and it accepts any object whose \<open>success\<close> is a boolean, whatever else it has.
\<close>

theorem validateResponse_accepts_iff:
  "(validateResponse v op = Inr v \<longleftrightarrow> spec_valid_envelope v)
   \<and> (isl (validateResponse v op) \<longleftrightarrow> \<not> spec_valid_envelope v)
   \<and> isl (validateResponse JNull op)
   \<and> isl (validateResponse JUndefined op)
   \<and> isl (validateResponse (JStr s) op)
   \<and> isl (validateResponse (JObj []) op)
   \<and> isl (validateResponse (JObj [(''success'', JStr ''yes'')]) op)
   \<and> validateResponse (JObj ((''success'', JBool b) # ps)) op
       = Inr (JObj ((''success'', JBool b) # ps))"
proof -
  have accept: "validateResponse v op = Inr v \<longleftrightarrow> spec_valid_envelope v"
    and reject: "isl (validateResponse v op) \<longleftrightarrow> \<not> spec_valid_envelope v"
    by (simp_all add: validateResponse_cases)
  have rejected: "isl (validateResponse JNull op)" "isl (validateResponse JUndefined op)"
    "isl (validateResponse (JStr s) op)" "isl (validateResponse (JObj []) op)"
    "isl (validateResponse (JObj [(''success'', JStr ''yes'')]) op)"
    by (simp_all add: validateResponse_def)
  have accepted: "validateResponse (JObj ((''success'', JBool b) # ps)) op
       = Inr (JObj ((''success'', JBool b) # ps))"
    by (simp add: validateResponse_def)
  from accept reject rejected accepted show ?thesis by simp
qed

text \<open>
  C4, as the specification words it: the message of the validator's error ends in
  \<open>expected envelope shape\<close>. The code's message names the type instead, so the claimed
  text is not what an invalid body produces, here \<open>null\<close> for \<open>getUser\<close>.
\<close>

theorem validateResponse_envelope_wording_counterexample:
  "\<not> spec_valid_envelope JNull
   \<and> validateResponse JNull ''getUser'' \<noteq>
       Inl (Error ''Invalid API response for getUser: response does not match expected envelope shape'')"
  by (simp add: validateResponse_def spec_valid_envelope_def)

text \<open>
  C4, amended. For every value that is not a valid envelope and every operation name
  \<open>op\<close>, \<open>validateResponse\<close> throws an \<open>Error\<close> whose message is exactly
  \<open>Invalid API response for <op>: response does not match expected BaseResponse shape\<close>.
\<close>

theorem validateResponse_error_message:
  "\<not> spec_valid_envelope v \<Longrightarrow>
   validateResponse v op =
     Inl (Error (''Invalid API response for '' @ op
                 @ '': response does not match expected BaseResponse shape''))"
  by (simp add: validateResponse_cases)

theorem validateResponse_error_message_witness:
  "\<not> spec_valid_envelope (JStr ''not an object'')
   \<and> validateResponse (JStr ''not an object'') ''getUser'' =
       Inl (Error ''Invalid API response for getUser: response does not match expected BaseResponse shape'')"
proof -
  have invalid: "\<not> spec_valid_envelope (JStr ''not an object'')"
    by (simp add: spec_valid_envelope_def)
  from invalid validateResponse_error_message [OF invalid, of "''getUser''"]
  show ?thesis by simp
qed

section \<open>The cache keys\<close>

text \<open>
  C3, as stated: for every user id \<open>u\<close> the key of the user's history list differs from
  the key of the global total. It does not for the user id \<open>total\<close>.
\<close>

theorem histories_total_key_collision_counterexample:
  "QUERY_KEYS_histories ''total'' = QUERY_KEYS_historiesTotal"
  by (simp add: QUERY_KEYS_histories_def QUERY_KEYS_historiesTotal_def)

text \<open>
  C3, amended. The key factory is a function of its logical input: \<open>histories u\<close> is
  \<open>(starter, histories, u)\<close>, \<open>historiesTotal\<close> is \<open>(starter, histories, total)\<close>,
  \<open>user u\<close> is \<open>(starter, user, u)\<close>, with \<open>user\<close> as second and \<open>u\<close> as third element.
  Keys of different resources differ (two history lists or two profiles exactly when
  the user ids differ, a history list from every profile, a profile from the total),
  with one exception: the history list of a user differs from the total exactly when the
  user id is not the word \<open>total\<close>.
\<close>

theorem query_keys_shape_and_separation:
  "QUERY_KEYS_histories u = [''starter'', ''histories'', u]
   \<and> QUERY_KEYS_historiesTotal = [''starter'', ''histories'', ''total'']
   \<and> QUERY_KEYS_user u = [''starter'', ''user'', u]
   \<and> QUERY_KEYS_user u ! 1 = ''user''
   \<and> QUERY_KEYS_user u ! 2 = u
   \<and> (QUERY_KEYS_histories u = QUERY_KEYS_histories u' \<longleftrightarrow> u = u')
   \<and> (QUERY_KEYS_user u = QUERY_KEYS_user u' \<longleftrightarrow> u = u')
   \<and> QUERY_KEYS_histories u \<noteq> QUERY_KEYS_user u'
   \<and> QUERY_KEYS_user u \<noteq> QUERY_KEYS_historiesTotal
   \<and> (QUERY_KEYS_histories u \<noteq> QUERY_KEYS_historiesTotal \<longleftrightarrow> u \<noteq> ''total'')"
  by (simp add: QUERY_KEYS_histories_def QUERY_KEYS_historiesTotal_def QUERY_KEYS_user_def)

section \<open>The client\<close>

text \<open>
  C5. Construct a client on a base URL and any transport, and let the transport record
  its calls. Each of the six operations then issues exactly one call, the one of its row
  in the operation table: the method, the URL \<open>buildUrl\<close> makes of the base and the path
  with the identifiers interpolated, the authenticated headers for the five user-scoped
  operations and the public ones for the total, and for create and update the request
  body as it was given. Recording changes nothing else: result and transport state are
  those of the unobserved client.
\<close>

theorem client_calls_follow_table:
  "run_op (new_StarterClient b (recording nc)) op (log, s) =
     (case run_op (new_StarterClient b nc) op s of
        (r, s') \<Rightarrow> (r, (log @ [operation_table b op], s')))"
  by (simp add: run_op_perform perform_recording logged_def split: prod.splits sum.splits)

theorem client_calls_follow_table_witness:
  "run_op (new_StarterClient ''https://api.example.com/''
       (createMockNetworkClient (JObj [(''success'', JBool True)])))
     (CreateHistory ''user-123''
        (JObj [(''datetime'', JStr ''2024-01-01T00:00:00Z''), (''value'', JNum ''100'')]) ''tok'')
     ([], ())
   = (Inr (JObj [(''success'', JBool True)]),
      ([POST ''https://api.example.com/api/v1/users/user-123/histories''
          (JObj [(''datetime'', JStr ''2024-01-01T00:00:00Z''), (''value'', JNum ''100'')])
          \<lparr>headers = [(''Content-Type'', ''application/json''), (''Accept'', ''application/json''),
                       (''Authorization'', ''Bearer tok'')]\<rparr>], ()))"
  unfolding createMockNetworkClient_def Let_def
  using client_calls_follow_table [of "''https://api.example.com/''" _
      "CreateHistory ''user-123''
        (JObj [(''datetime'', JStr ''2024-01-01T00:00:00Z''), (''value'', JNum ''100'')]) ''tok''"
      "[]" "()"]
  by (simp add: new_StarterClient_def createHistory_def await_def settle_def validateResponse_def
      buildUrl_def createAuthHeaders_def)

text \<open>
  C6. For every client method: when the transport resolves with a body that is a
  well-formed envelope with \<open>success\<close> false, the method returns that envelope and does
  not throw; when the body is not a well-formed envelope, the method throws the
  validator's error, named after the method.
\<close>

theorem business_failure_returned:
  "perform nc (operation_table b op) s = (Inr r, s') \<Longrightarrow>
     (is_business_failure (data r) \<longrightarrow>
        run_op (new_StarterClient b nc) op s = (Inr (data r), s'))
     \<and> (\<not> spec_valid_envelope (data r) \<longrightarrow>
          run_op (new_StarterClient b nc) op s =
            (Inl (Error (''Invalid API response for '' @ operation_name op
                         @ '': response does not match expected BaseResponse shape'')), s'))"
  by (simp add: run_op_perform validateResponse_cases is_business_failure_def)

theorem business_failure_returned_witness:
  "run_op (new_StarterClient ''https://api.example.com''
       (createMockNetworkClient (JObj [(''success'', JBool False), (''error'', JStr ''Not found'')])))
     GetHistoriesTotal ([], ())
   = (Inr (JObj [(''success'', JBool False), (''error'', JStr ''Not found'')]),
      ([GET ''https://api.example.com/api/v1/histories/total'' \<lparr>headers = createHeaders\<rparr>], ()))
   \<and> run_op (new_StarterClient ''https://api.example.com'' (createMockNetworkClient (JStr ''raw string'')))
       (GetUser ''user-123'' ''token'') ([], ())
   = (Inl (Error ''Invalid API response for getUser: response does not match expected BaseResponse shape''),
      ([GET ''https://api.example.com/api/v1/users/user-123'' \<lparr>headers = createAuthHeaders ''token''\<rparr>], ()))"
proof -
  let ?failure = "JObj [(''success'', JBool False), (''error'', JStr ''Not found'')]"
  have resolved: "perform (createMockNetworkClient ?failure)
        (operation_table ''https://api.example.com'' GetHistoriesTotal) ([], ())
      = (Inr \<lparr>data = ?failure\<rparr>,
         ([GET ''https://api.example.com/api/v1/histories/total'' \<lparr>headers = createHeaders\<rparr>], ()))"
    by (simp add: createMockNetworkClient_def recording_def logged_def settle_def Let_def
        buildUrl_def)
  have failure: "is_business_failure (data \<lparr>data = ?failure\<rparr>)"
    by (simp add: is_business_failure_def spec_valid_envelope_def)
  have malformed: "perform (createMockNetworkClient (JStr ''raw string''))
        (operation_table ''https://api.example.com'' (GetUser ''user-123'' ''token'')) ([], ())
      = (Inr \<lparr>data = JStr ''raw string''\<rparr>,
         ([GET ''https://api.example.com/api/v1/users/user-123''
             \<lparr>headers = createAuthHeaders ''token''\<rparr>], ()))"
    by (simp add: createMockNetworkClient_def recording_def logged_def settle_def Let_def
        buildUrl_def)
  have invalid: "\<not> spec_valid_envelope (data \<lparr>data = JStr ''raw string''\<rparr>)"
    by (simp add: spec_valid_envelope_def)
  from business_failure_returned [OF resolved] failure
    business_failure_returned [OF malformed] invalid
  show ?thesis by simp
qed

section \<open>Writes and cache invalidation\<close>

text \<open>
  C2, as stated: after every successful write both the acting user's history-list key
  and the global-total key are invalidated. The hook's \<open>invalidate\<close> skips the user's key
  when its \<open>userId\<close> is falsy: with the empty string as user id, a delete that the
  transport confirms with \<open>success: true\<close> invalidates the total only, not the key
  \<open>histories('')\<close> under which the hook registered its own query.
\<close>

theorem empty_userId_write_counterexample:
  "write_succeeded (fst (useHistories_write (createMockNetworkClient (JObj [(''success'', JBool True)]))
       ''https://api.example.com'' (Some '''') (Some ''tok'') (Delete ''hist-456'')
       \<lparr>transport_state = ([], ()), invalidated = []\<rparr>))
   \<and> QUERY_KEYS_histories '''' \<notin> set (invalidated (snd (useHistories_write
       (createMockNetworkClient (JObj [(''success'', JBool True)]))
       ''https://api.example.com'' (Some '''') (Some ''tok'') (Delete ''hist-456'')
       \<lparr>transport_state = ([], ()), invalidated = []\<rparr>)))"
  by (simp add: useHistories_deleteHistory_def mutateAsync_def on_transport_def deleteHistory_def
      new_StarterClient_def createMockNetworkClient_def recording_def logged_def await_def
      settle_def validateResponse_def onSuccess_invalidate_def invalidate_def
      invalidateQueries_def Let_def QUERY_KEYS_histories_def QUERY_KEYS_historiesTotal_def)

text \<open>
  C2, amended. For every write of the hook (create, update, delete), on any transport:
  if the write settles with an envelope whose \<open>success\<close> is \<open>true\<close>, the hook invalidates
  the user's history-list key, provided its \<open>userId\<close> is neither \<open>null\<close> nor empty, and
  then the global-total key, and nothing else; if the write fails (the envelope says
  \<open>success: false\<close>, or the call throws), it invalidates nothing.
\<close>

theorem write_invalidation:
  "invalidated (snd (useHistories_write nc b userId token wr w)) =
     invalidated w @
       (if write_succeeded (fst (useHistories_write nc b userId token wr w))
        then (case userId of None \<Rightarrow> []
              | Some u \<Rightarrow> if u \<noteq> [] then [QUERY_KEYS_histories u] else [])
             @ [QUERY_KEYS_historiesTotal]
        else [])"
proof (cases wr)
  case (Create d)
  show ?thesis
    using mutate_client_op [of b nc
        "\<lambda>d. CreateHistory (non_null_assertion userId) d (non_null_assertion token)" userId d w]
    by (simp add: Create useHistories_createHistory_def)
next
  case (Update h d)
  show ?thesis
    using mutate_client_op [of b nc
        "\<lambda>(h, d). UpdateHistory (non_null_assertion userId) h d (non_null_assertion token)"
        userId "(h, d)" w]
    by (simp add: Update useHistories_updateHistory_def case_prod_unfold)
next
  case (Delete h)
  show ?thesis
    using mutate_client_op [of b nc
        "\<lambda>h. DeleteHistory (non_null_assertion userId) h (non_null_assertion token)" userId h w]
    by (simp add: Delete useHistories_deleteHistory_def)
qed

theorem write_invalidation_witness:
  "invalidated (snd (useHistories_write (createMockNetworkClient (JObj [(''success'', JBool True)]))
       ''https://api.example.com'' (Some ''user-123'') (Some ''tok'')
       (Update ''hist-456'' (JObj [(''value'', JNum ''200'')]))
       \<lparr>transport_state = ([], ()), invalidated = []\<rparr>))
     = [QUERY_KEYS_histories ''user-123'', QUERY_KEYS_historiesTotal]
   \<and> invalidated (snd (useHistories_write
       (createMockNetworkClient (JObj [(''success'', JBool False), (''error'', JStr ''Not found'')]))
       ''https://api.example.com'' (Some ''user-123'') (Some ''tok'')
       (Update ''hist-456'' (JObj [(''value'', JNum ''200'')]))
       \<lparr>transport_state = ([], ()), invalidated = []\<rparr>))
     = []"
proof -
  let ?w = "\<lparr>transport_state = ([] :: http_call list, ()), invalidated = []\<rparr>"
  let ?upd = "Update ''hist-456'' (JObj [(''value'', JNum ''200'')])"
  have ok: "write_succeeded (fst (useHistories_write
       (createMockNetworkClient (JObj [(''success'', JBool True)]))
       ''https://api.example.com'' (Some ''user-123'') (Some ''tok'') ?upd ?w))"
    by (simp add: useHistories_updateHistory_def mutateAsync_def on_transport_def
        updateHistory_def new_StarterClient_def createMockNetworkClient_def recording_def
        logged_def await_def settle_def validateResponse_def Let_def)
  have failed: "\<not> write_succeeded (fst (useHistories_write
       (createMockNetworkClient (JObj [(''success'', JBool False), (''error'', JStr ''Not found'')]))
       ''https://api.example.com'' (Some ''user-123'') (Some ''tok'') ?upd ?w))"
    by (simp add: useHistories_updateHistory_def mutateAsync_def on_transport_def
        updateHistory_def new_StarterClient_def createMockNetworkClient_def recording_def
        logged_def await_def settle_def validateResponse_def Let_def)
  from ok failed
    write_invalidation [of "createMockNetworkClient (JObj [(''success'', JBool True)])"
      "''https://api.example.com''" "Some ''user-123''" "Some ''tok''" ?upd ?w]
    write_invalidation [of "createMockNetworkClient
        (JObj [(''success'', JBool False), (''error'', JStr ''Not found'')])"
      "''https://api.example.com''" "Some ''user-123''" "Some ''tok''" ?upd ?w]
  show ?thesis by simp
qed

section \<open>The error formatter\<close>




text \<open>
  C10. \<open>handleApiError\<close> selects the message by truthiness, not by presence: for every
  operation name, when the \<open>error\<close> field of the input's \<open>data\<close> is the empty string it
  is skipped, and the result is made from the \<open>message\<close> field of \<open>data\<close>, or from
  \<open>Unknown error\<close> when that field is absent or empty too. So
  \<open>handleApiError({data:{error:""}}, op)\<close> gives \<open>Failed to <op>: Unknown error\<close>.
\<close>

theorem handleApiError_skips_empty_error:
  "(js_opt_get (js_opt_get r ''data'') ''error'' = JStr '''' \<longrightarrow>
      handleApiError r op =
        (case js_to_string
                (if js_truthy (js_opt_get (js_opt_get r ''data'') ''message'')
                 then js_opt_get (js_opt_get r ''data'') ''message''
                 else JStr ''Unknown error'') of
           Inl e \<Rightarrow> Inl e
         | Inr s \<Rightarrow> Inr (Error (''Failed to '' @ op @ '': '' @ s)))
      \<and> (\<forall>s. js_opt_get (js_opt_get r ''data'') ''message'' = JStr s \<and> s \<noteq> [] \<longrightarrow>
             handleApiError r op = Inr (Error (''Failed to '' @ op @ '': '' @ s)))
      \<and> (js_opt_get (js_opt_get r ''data'') ''message'' = JUndefined
           \<or> js_opt_get (js_opt_get r ''data'') ''message'' = JStr '''' \<longrightarrow>
             handleApiError r op = Inr (Error (''Failed to '' @ op @ '': Unknown error''))))
   \<and> handleApiError (JObj [(''data'', JObj [(''error'', JStr '''')])]) op
       = Inr (Error (''Failed to '' @ op @ '': Unknown error''))"
proof -
  have skipped: "handleApiError r op =
        (case js_to_string
                (if js_truthy (js_opt_get (js_opt_get r ''data'') ''message'')
                 then js_opt_get (js_opt_get r ''data'') ''message''
                 else JStr ''Unknown error'') of
           Inl e \<Rightarrow> Inl e
         | Inr s \<Rightarrow> Inr (Error (''Failed to '' @ op @ '': '' @ s)))"
    if "js_opt_get (js_opt_get r ''data'') ''error'' = JStr ''''"
    using that by (simp add: handleApiError_select)
  have example: "handleApiError (JObj [(''data'', JObj [(''error'', JStr '''')])]) op
       = Inr (Error (''Failed to '' @ op @ '': Unknown error''))"
    by (simp add: handleApiError_select js_opt_get_def)
  show ?thesis
    using skipped example by auto
qed

theorem handleApiError_skips_empty_error_witness:
  "handleApiError
     (JObj [(''data'', JObj [(''error'', JStr ''''), (''message'', JStr ''Server error'')])])
     ''create history''
     = Inr (Error ''Failed to create history: Server error'')
   \<and> handleApiError
       (JObj [(''data'', JObj [(''error'', JStr ''''), (''message'', JStr '''')])]) ''delete''
     = Inr (Error ''Failed to delete: Unknown error'')"
  using handleApiError_skips_empty_error
      [of "JObj [(''data'', JObj [(''error'', JStr ''''), (''message'', JStr ''Server error'')])]"
          "''create history''"]
    handleApiError_skips_empty_error
      [of "JObj [(''data'', JObj [(''error'', JStr ''''), (''message'', JStr '''')])]" "''delete''"]
  by (simp add: js_opt_get_def)

end
